theory Spec2Isabelle
  imports Main
begin

section \<open>Clinic reservation backend: documents, store and handlers\<close>

text \<open>
  The backend (\<^verbatim>\<open>src/backend/main.go\<close>) is a set of HTTP handlers, each of which
  binds the request body, issues calls on one collection of a document store and maps the
  outcome to a JSON response. The model below follows the handlers line by line:

  \<^item> the three Go structs are records with the fields of the source;
  \<^item> a collection is the list of its documents in natural order (the order in which a
    scan returns them; an insert adds at the end); duplicates are possible, since no
    handler creates a unique index;
  \<^item> the store is passed in and returned; a handler yields its response and the store
    it leaves behind;
  \<^item> a body that does not bind (\<^verbatim>\<open>ShouldBindJSON\<close> returns an error) is \<open>None\<close>;
  \<^item> a driver call that returns a non-nil error is \<open>None\<close>; whether a call errs is
    decided by the environment \<open>env\<close>, which also holds the outcome of the salted
    password hash.

  Stored documents are taken to be values of the Go structs: a schedule is an array of
  strings.
\<close>

subsection \<open>Documents\<close>

record User =
  Username :: string
  Password :: string
  Email :: string

record Doctor =
  ID :: string
  DName :: string
  Schedule :: "string list"

record Patient =
  ID :: string
  PName :: string
  Schedule :: "string list"

text \<open>The database \<^verbatim>\<open>hospital\<close> with its collections \<^verbatim>\<open>users\<close>, \<^verbatim>\<open>doctor\<close> and \<^verbatim>\<open>patients\<close>.\<close>

record store =
  users :: "User list"
  doctor :: "Doctor list"
  patients :: "Patient list"

subsection \<open>Environment of a request\<close>

text \<open>
  Each handler makes every kind of driver call at most once, so one flag per kind of call
  says whether that call returns an error. \<open>GenerateFromPassword\<close> is the result of
  \<^verbatim>\<open>bcrypt.GenerateFromPassword\<close> at the default cost: \<open>None\<close> when it returns an error.
\<close>

record env =
  CountDocuments_err :: bool
  InsertOne_err :: bool
  UpdateOne_err :: bool
  FindOne_err :: bool
  Find_err :: bool
  GenerateFromPassword :: "string \<Rightarrow> string option"

subsection \<open>Responses\<close>

datatype json =
  H_error string
  | H_message string
  | Doctor_json Doctor
  | Doctors_json "Doctor list"
  | Schedule_json "string list"

type_synonym response = "nat \<times> json"

abbreviation StatusOK :: nat where "StatusOK \<equiv> 200"
abbreviation StatusBadRequest :: nat where "StatusBadRequest \<equiv> 400"
abbreviation StatusNotFound :: nat where "StatusNotFound \<equiv> 404"
abbreviation StatusInternalServerError :: nat where "StatusInternalServerError \<equiv> 500"

subsection \<open>Driver calls on a collection\<close>

text \<open>
  A filter \<^verbatim>\<open>bson.M{...}\<close> is the predicate it denotes on documents; an update document is
  the function it applies to the matched document.
\<close>

definition CountDocuments :: "env \<Rightarrow> ('a \<Rightarrow> bool) \<Rightarrow> 'a list \<Rightarrow> nat option" where
  "CountDocuments e flt coll =
     (if CountDocuments_err e then None else Some (length (filter flt coll)))"

definition InsertOne :: "env \<Rightarrow> 'a \<Rightarrow> 'a list \<Rightarrow> 'a list option" where
  "InsertOne e d coll = (if InsertOne_err e then None else Some (coll @ [d]))"

text \<open>\<open>update_one\<close>: the first document that matches the filter is updated, no other.\<close>

fun update_one :: "('a \<Rightarrow> bool) \<Rightarrow> ('a \<Rightarrow> 'a) \<Rightarrow> 'a list \<Rightarrow> 'a list" where
  "update_one flt upd [] = []"
| "update_one flt upd (d # ds) =
     (if flt d then upd d # ds else d # update_one flt upd ds)"

definition UpdateOne :: "env \<Rightarrow> ('a \<Rightarrow> bool) \<Rightarrow> ('a \<Rightarrow> 'a) \<Rightarrow> 'a list \<Rightarrow> 'a list option" where
  "UpdateOne e flt upd coll =
     (if UpdateOne_err e then None else Some (update_one flt upd coll))"

text \<open>\<open>FindOne(...).Decode\<close>: an error of the call and \<^verbatim>\<open>ErrNoDocuments\<close> are both \<open>None\<close>.\<close>

definition FindOne :: "env \<Rightarrow> ('a \<Rightarrow> bool) \<Rightarrow> 'a list \<Rightarrow> 'a option" where
  "FindOne e flt coll = (if FindOne_err e then None else find flt coll)"

definition Find :: "env \<Rightarrow> 'a list \<Rightarrow> 'a list option" where
  "Find e coll = (if Find_err e then None else Some coll)"

subsection \<open>Update operators on a schedule\<close>

text \<open>
  The index of the first array element equal to the queried value: the position that the
  positional operator \<^verbatim>\<open>schedule.$\<close> stands for.
\<close>

fun first_match :: "string \<Rightarrow> string list \<Rightarrow> nat option" where
  "first_match a [] = None"
| "first_match a (x # xs) =
     (if x = a then Some 0 else map_option Suc (first_match a xs))"

text \<open>\<^verbatim>\<open>{"$set": {"schedule.$": v}}\<close>\<close>

definition set_positional :: "string \<Rightarrow> string \<Rightarrow> Patient \<Rightarrow> Patient" where
  "set_positional a v p =
     (case first_match a (Patient.Schedule p) of
        None \<Rightarrow> p
      | Some i \<Rightarrow> p\<lparr>Patient.Schedule := (Patient.Schedule p)[i := v]\<rparr>)"

text \<open>\<^verbatim>\<open>{"$pull": {"schedule": a}}\<close>: every array element equal to the value is removed.\<close>

fun pull :: "string \<Rightarrow> string list \<Rightarrow> string list" where
  "pull a [] = []"
| "pull a (x # xs) = (if x = a then pull a xs else x # pull a xs)"

text \<open>\<^verbatim>\<open>{"$push": {"schedule": a}}\<close>: the value is added at the end of the array.\<close>

definition push :: "string \<Rightarrow> string list \<Rightarrow> string list" where
  "push a xs = xs @ [a]"

subsection \<open>Handlers\<close>

definition isUsernameTaken :: "env \<Rightarrow> store \<Rightarrow> string \<Rightarrow> bool option" where
  "isUsernameTaken e s username =
     (case CountDocuments e (\<lambda>u. Username u = username) (users s) of
        None \<Rightarrow> None
      | Some count \<Rightarrow> Some (count > 0))"

definition SignUp :: "env \<Rightarrow> store \<Rightarrow> User option \<Rightarrow> response \<times> store" where
  "SignUp e s body =
     (case body of
        None \<Rightarrow> ((StatusBadRequest, H_error ''Invalid input data''), s)
      | Some newUser \<Rightarrow>
          (case isUsernameTaken e s (Username newUser) of
             None \<Rightarrow>
               ((StatusInternalServerError, H_error ''Error checking username availability''), s)
           | Some True \<Rightarrow> ((StatusBadRequest, H_error ''Username is already taken''), s)
           | Some False \<Rightarrow>
               (case GenerateFromPassword e (Password newUser) of
                  None \<Rightarrow> ((StatusInternalServerError, H_error ''Error hashing password''), s)
                | Some hashedPassword \<Rightarrow>
                    (case InsertOne e (newUser\<lparr>Password := hashedPassword\<rparr>) (users s) of
                       None \<Rightarrow> ((StatusInternalServerError, H_error ''Error creating user''), s)
                     | Some us \<Rightarrow>
                         ((StatusOK, H_message ''User created successfully''),
                          s\<lparr>users := us\<rparr>)))))"

definition GetDoctors :: "env \<Rightarrow> store \<Rightarrow> response" where
  "GetDoctors e s =
     (case Find e (doctor s) of
        None \<Rightarrow> (StatusInternalServerError, H_error ''Error fetching doctor data'')
      | Some doctors \<Rightarrow> (StatusOK, Doctors_json doctors))"

definition GetDoctorByID :: "env \<Rightarrow> store \<Rightarrow> string \<Rightarrow> response" where
  "GetDoctorByID e s doctorID =
     (case FindOne e (\<lambda>d. Doctor.ID d = doctorID) (doctor s) of
        None \<Rightarrow> (StatusNotFound, H_error ''Doctor not found'')
      | Some d \<Rightarrow> (StatusOK, Doctor_json d))"

definition CreateDoctor :: "env \<Rightarrow> store \<Rightarrow> Doctor option \<Rightarrow> response \<times> store" where
  "CreateDoctor e s body =
     (case body of
        None \<Rightarrow> ((StatusBadRequest, H_error ''Invalid input data''), s)
      | Some newDoctor \<Rightarrow>
          (case InsertOne e newDoctor (doctor s) of
             None \<Rightarrow> ((StatusInternalServerError, H_error ''Error creating doctor''), s)
           | Some ds \<Rightarrow>
               ((StatusOK, H_message ''Doctor created successfully''), s\<lparr>doctor := ds\<rparr>)))"

definition SetDoctorSchedule ::
  "env \<Rightarrow> store \<Rightarrow> string \<Rightarrow> string list option \<Rightarrow> response \<times> store" where
  "SetDoctorSchedule e s doctorID body =
     (case body of
        None \<Rightarrow> ((StatusBadRequest, H_error ''Invalid input data''), s)
      | Some schedule \<Rightarrow>
          (case UpdateOne e (\<lambda>d. Doctor.ID d = doctorID)
                  (\<lambda>d. d\<lparr>Doctor.Schedule := schedule\<rparr>) (doctor s) of
             None \<Rightarrow>
               ((StatusInternalServerError, H_error ''Error updating doctor's schedule''), s)
           | Some ds \<Rightarrow>
               ((StatusOK, H_message ''Doctor's schedule updated successfully''),
                s\<lparr>doctor := ds\<rparr>)))"

definition GetPatientAppointments :: "env \<Rightarrow> store \<Rightarrow> string \<Rightarrow> response" where
  "GetPatientAppointments e s patientID =
     (case FindOne e (\<lambda>p. Patient.ID p = patientID) (patients s) of
        None \<Rightarrow> (StatusNotFound, H_error ''Patient not found'')
      | Some p \<Rightarrow> (StatusOK, Schedule_json (Patient.Schedule p)))"

definition BookAppointment ::
  "env \<Rightarrow> store \<Rightarrow> string \<Rightarrow> string option \<Rightarrow> response \<times> store" where
  "BookAppointment e s patientID body =
     (case body of
        None \<Rightarrow> ((StatusBadRequest, H_error ''Invalid input data''), s)
      | Some newAppointment \<Rightarrow>
          (case UpdateOne e (\<lambda>p. Patient.ID p = patientID)
                  (\<lambda>p. p\<lparr>Patient.Schedule := push newAppointment (Patient.Schedule p)\<rparr>)
                  (patients s) of
             None \<Rightarrow> ((StatusInternalServerError, H_error ''Error booking appointment''), s)
           | Some ps \<Rightarrow>
               ((StatusOK, H_message ''Appointment booked successfully''),
                s\<lparr>patients := ps\<rparr>)))"

definition UpdateAppointment ::
  "env \<Rightarrow> store \<Rightarrow> string \<Rightarrow> string \<Rightarrow> string option \<Rightarrow> response \<times> store" where
  "UpdateAppointment e s patientID appointmentID body =
     (case body of
        None \<Rightarrow> ((StatusBadRequest, H_error ''Invalid input data''), s)
      | Some updatedAppointment \<Rightarrow>
          (case UpdateOne e
                  (\<lambda>p. Patient.ID p = patientID
                        \<and> first_match appointmentID (Patient.Schedule p) \<noteq> None)
                  (set_positional appointmentID updatedAppointment)
                  (patients s) of
             None \<Rightarrow> ((StatusInternalServerError, H_error ''Error updating appointment''), s)
           | Some ps \<Rightarrow>
               ((StatusOK, H_message ''Appointment updated successfully''),
                s\<lparr>patients := ps\<rparr>)))"

definition CancelAppointment :: "env \<Rightarrow> store \<Rightarrow> string \<Rightarrow> string \<Rightarrow> response \<times> store" where
  "CancelAppointment e s patientID appointmentID =
     (case UpdateOne e (\<lambda>p. Patient.ID p = patientID)
             (\<lambda>p. p\<lparr>Patient.Schedule := pull appointmentID (Patient.Schedule p)\<rparr>)
             (patients s) of
        None \<Rightarrow> ((StatusInternalServerError, H_error ''Error canceling appointment''), s)
      | Some ps \<Rightarrow>
          ((StatusOK, H_message ''Appointment canceled successfully''),
           s\<lparr>patients := ps\<rparr>))"

subsection \<open>Sample data\<close>

text \<open>
  An environment in which every driver call goes through. The hash is a stand-in (the
  real one is salted at random): all that matters is that it returns a value.
\<close>

definition env_ok :: env where
  "env_ok =
     \<lparr>CountDocuments_err = False, InsertOne_err = False, UpdateOne_err = False,
      FindOne_err = False, Find_err = False,
      GenerateFromPassword = (\<lambda>pw. Some (''$2a$10$'' @ pw))\<rparr>"

definition alice :: User where
  "alice = \<lparr>Username = ''alice'', Password = ''$2a$10$secret'', Email = ''alice@clinic.org''\<rparr>"

definition bob :: User where
  "bob = \<lparr>Username = ''bob'', Password = '''', Email = ''bob@clinic.org''\<rparr>"

definition doc1 :: Doctor where
  "doc1 = \<lparr>Doctor.ID = ''d1'', Doctor.DName = ''Dr. Amr'', Doctor.Schedule = [''Tue'']\<rparr>"

definition doc2 :: Doctor where
  "doc2 = \<lparr>Doctor.ID = ''d2'', Doctor.DName = ''Dr. Mona'', Doctor.Schedule = [''Fri'', ''Sat'']\<rparr>"

definition pat1 :: Patient where
  "pat1 = \<lparr>Patient.ID = ''p1'', Patient.PName = ''Omar'', Patient.Schedule = []\<rparr>"

definition pat2 :: Patient where
  "pat2 =
     \<lparr>Patient.ID = ''p2'', Patient.PName = ''Sara'',
      Patient.Schedule = [''B7'', ''A1'', ''C3'', ''A1'']\<rparr>"

definition store0 :: store where
  "store0 = \<lparr>users = [alice], doctor = [doc1, doc2], patients = [pat1, pat2]\<rparr>"

text \<open>
  A store in which ids repeat. No handler looks at the ids already present before it
  inserts, and nothing makes ids unique in the patients collection, so a second document
  can carry the id of an earlier one.
\<close>

definition doc1b :: Doctor where
  "doc1b = \<lparr>Doctor.ID = ''d1'', Doctor.DName = ''Dr. Hany'', Doctor.Schedule = [''Thu'']\<rparr>"

definition pat2b :: Patient where
  "pat2b =
     \<lparr>Patient.ID = ''p2'', Patient.PName = ''Salma'', Patient.Schedule = [''A1'', ''D4'']\<rparr>"

definition store_dup :: store where
  "store_dup = \<lparr>users = [alice], doctor = [doc1, doc1b], patients = [pat2, pat2b]\<rparr>"

lemmas dup_defs = env_ok_def alice_def doc1_def doc1b_def pat2_def pat2b_def store_dup_def

lemmas sample_defs = env_ok_def alice_def bob_def doc1_def doc2_def pat1_def pat2_def store0_def

section \<open>Facts about the driver calls\<close>

lemma length_update_one [simp]: "length (update_one flt upd ds) = length ds"
  by (induction ds) auto

lemma update_one_no_match:
  "\<forall>d \<in> set ds. \<not> flt d \<Longrightarrow> update_one flt upd ds = ds"
  by (induction ds) auto

lemma update_one_first:
  "\<forall>d \<in> set pre. \<not> flt d \<Longrightarrow> flt d \<Longrightarrow>
   update_one flt upd (pre @ d # post) = pre @ upd d # post"
  by (induction pre) auto

text \<open>
  Every key that occurs in a collection has a first document carrying it. The theorems
  below address a document through this split of its collection, so they cover every
  doctor and every patient of the store (the first of its id, when ids repeat).
\<close>

lemma first_document_exists:
  assumes "x \<in> set ds"
  shows "\<exists>pre d post. ds = pre @ d # post \<and> (\<forall>y \<in> set pre. key y \<noteq> key x) \<and> key d = key x"
proof -
  from assms have "\<exists>y \<in> set ds. key y = key x"
    by blast
  then obtain pre d post where "ds = pre @ d # post" "key d = key x"
    "\<forall>y \<in> set pre. \<not> key y = key x"
    by (auto dest!: split_list_first_prop)
  then show ?thesis
    by blast
qed

lemma find_first:
  "\<forall>d \<in> set pre. \<not> flt d \<Longrightarrow> flt d \<Longrightarrow> find flt (pre @ d # post) = Some d"
  by (induction pre) auto

lemma filter_empty_iff_length: "(0 < length (filter P xs)) = (\<exists>x \<in> set xs. P x)"
  by (induction xs) auto

lemma update_one_nth_other:
  "i < length ds \<Longrightarrow> \<not> flt (ds ! i) \<Longrightarrow> update_one flt upd ds ! i = ds ! i"
proof (induction ds arbitrary: i)
  case Nil
  then show ?case by simp
next
  case (Cons d ds)
  then show ?case by (cases i) auto
qed

lemma update_one_at_most_one:
  "\<exists>k. \<forall>i < length ds. i \<noteq> k \<longrightarrow> update_one flt upd ds ! i = ds ! i"
proof (induction ds)
  case Nil
  then show ?case by simp
next
  case (Cons d ds)
  show ?case
  proof (cases "flt d")
    case True
    then have "\<forall>i < length (d # ds). i \<noteq> 0 \<longrightarrow> update_one flt upd (d # ds) ! i = (d # ds) ! i"
      by simp
    then show ?thesis ..
  next
    case False
    from Cons.IH obtain k where k: "\<forall>i < length ds. i \<noteq> k \<longrightarrow> update_one flt upd ds ! i = ds ! i"
      ..
    have "update_one flt upd (d # ds) ! i = (d # ds) ! i"
      if "i < length (d # ds)" "i \<noteq> Suc k" for i
      using that k False by (cases i) auto
    then show ?thesis by blast
  qed
qed

lemma update_one_map_inv:
  "(\<And>d. f (upd d) = f d) \<Longrightarrow> map f (update_one flt upd ds) = map f ds"
  by (induction ds) auto

subsection \<open>Schedule operators\<close>

lemma first_match_None_iff: "(first_match a xs = None) = (a \<notin> set xs)"
  by (induction xs) auto


lemma first_match_Some:
  "first_match a xs = Some i \<Longrightarrow> i < length xs \<and> xs ! i = a \<and> a \<notin> set (take i xs)"
  by (induction xs arbitrary: i) (auto split: if_splits)

lemma pull_filter: "pull a xs = filter (\<lambda>x. x \<noteq> a) xs"
  by (induction xs) auto

lemma pull_absent: "a \<notin> set xs \<Longrightarrow> pull a xs = xs"
  by (induction xs) auto


lemma first_match_in_set:
  "a \<in> set xs \<Longrightarrow> \<exists>i. first_match a xs = Some i \<and> i < length xs \<and> xs ! i = a"
  by (induction xs) auto

lemma set_positional_ID [simp]: "Patient.ID (set_positional a v p) = Patient.ID p"
  by (simp add: set_positional_def split: option.split)

lemma set_positional_PName [simp]: "Patient.PName (set_positional a v p) = Patient.PName p"
  by (simp add: set_positional_def split: option.split)

section \<open>Signup\<close>

text \<open>
  C1. When the users collection already holds a document with the username of the
  request, signup leaves the store as it is, whatever the environment does, so no second
  document with that username is created; and when the existence check itself goes
  through, the response is status 400 with the error "Username is already taken". The
  match is equality of strings, hence case-sensitive.
\<close>

theorem signup_existing_username_taken:
  assumes "\<exists>u \<in> set (users s). Username u = Username newUser"
  shows "snd (SignUp e s (Some newUser)) = s
         \<and> (\<not> CountDocuments_err e \<longrightarrow>
              fst (SignUp e s (Some newUser))
                = (StatusBadRequest, H_error ''Username is already taken''))"
proof -
  from assms have pos: "0 < length (filter (\<lambda>u. Username u = Username newUser) (users s))"
    by (simp only: filter_empty_iff_length)
  show ?thesis
  proof (cases "CountDocuments_err e")
    case True
    then show ?thesis
      by (simp add: SignUp_def isUsernameTaken_def CountDocuments_def)
  next
    case False
    with pos show ?thesis
      by (simp add: SignUp_def isUsernameTaken_def CountDocuments_def)
  qed
qed

theorem signup_existing_username_taken_witness:
  "(\<exists>u \<in> set (users store0). Username u = Username (alice\<lparr>Password := ''pw''\<rparr>))
   \<and> snd (SignUp env_ok store0 (Some (alice\<lparr>Password := ''pw''\<rparr>))) = store0
   \<and> \<not> CountDocuments_err env_ok
   \<and> fst (SignUp env_ok store0 (Some (alice\<lparr>Password := ''pw''\<rparr>)))
       = (StatusBadRequest, H_error ''Username is already taken'')"
proof -
  have h: "\<exists>u \<in> set (users store0). Username u = Username (alice\<lparr>Password := ''pw''\<rparr>)"
    by (simp add: sample_defs)
  have up: "\<not> CountDocuments_err env_ok"
    by (simp add: env_ok_def)
  from signup_existing_username_taken [OF h, of env_ok] h up show ?thesis
    by blast
qed

text \<open>
  C7. The handler has no check on the password. A request with the empty password, a free
  username and an environment in which every call goes through is answered with status
  200, and a user document is added: the claim that such a request is rejected fails on
  the sample store.
\<close>

theorem signup_empty_password_counterexample:
  "Password bob = ''''
   \<and> fst (SignUp env_ok store0 (Some bob)) = (StatusOK, H_message ''User created successfully'')
   \<and> users (snd (SignUp env_ok store0 (Some bob))) = [alice, bob\<lparr>Password := ''$2a$10$''\<rparr>]"
  by (simp add: SignUp_def isUsernameTaken_def CountDocuments_def InsertOne_def sample_defs)

text \<open>
  C7, as the code has it. Signup does not enforce a non-empty password: when the password
  is empty, the username is free, and the existence check, the hash and the insert all go
  through, the answer is status 200 and the users collection gains, at its end, the user
  of the request with the hash of the empty password as its password.
\<close>

theorem signup_empty_password_accepted:
  assumes "Password newUser = ''''"
    and "\<forall>u \<in> set (users s). Username u \<noteq> Username newUser"
    and "\<not> CountDocuments_err e"
    and "GenerateFromPassword e '''' = Some h"
    and "\<not> InsertOne_err e"
  shows "SignUp e s (Some newUser)
           = ((StatusOK, H_message ''User created successfully''),
              s\<lparr>users := users s @ [newUser\<lparr>Password := h\<rparr>]\<rparr>)"
proof -
  from assms(2) have "\<not> 0 < length (filter (\<lambda>u. Username u = Username newUser) (users s))"
    by (simp only: filter_empty_iff_length) blast
  with assms(1,3,4,5) show ?thesis
    by (simp add: SignUp_def isUsernameTaken_def CountDocuments_def InsertOne_def)
qed

theorem signup_empty_password_accepted_witness:
  "Password (bob\<lparr>Username := ''carol''\<rparr>) = ''''
   \<and> list_all (\<lambda>u. Username u \<noteq> Username (bob\<lparr>Username := ''carol''\<rparr>)) (users store0)
   \<and> \<not> CountDocuments_err env_ok
   \<and> GenerateFromPassword env_ok '''' = Some ''$2a$10$''
   \<and> \<not> InsertOne_err env_ok
   \<and> SignUp env_ok store0 (Some (bob\<lparr>Username := ''carol''\<rparr>))
       = ((StatusOK, H_message ''User created successfully''),
          store0\<lparr>users := users store0
                   @ [bob\<lparr>Username := ''carol'', Password := ''$2a$10$''\<rparr>]\<rparr>)"
proof -
  have h1: "Password (bob\<lparr>Username := ''carol''\<rparr>) = ''''"
    by (simp add: bob_def)
  have h2: "\<forall>u \<in> set (users store0). Username u \<noteq> Username (bob\<lparr>Username := ''carol''\<rparr>)"
    by (simp add: sample_defs)
  have h3: "\<not> CountDocuments_err env_ok"
    by (simp add: env_ok_def)
  have h4: "GenerateFromPassword env_ok '''' = Some ''$2a$10$''"
    by (simp add: env_ok_def)
  have h5: "\<not> InsertOne_err env_ok"
    by (simp add: env_ok_def)
  from h2 have l: "list_all (\<lambda>u. Username u \<noteq> Username (bob\<lparr>Username := ''carol''\<rparr>)) (users store0)"
    by (simp add: list_all_iff)
  from signup_empty_password_accepted [OF h1 h2 h3 h4 h5] have r:
    "SignUp env_ok store0 (Some (bob\<lparr>Username := ''carol''\<rparr>))
       = ((StatusOK, H_message ''User created successfully''),
          store0\<lparr>users := users store0
                   @ [bob\<lparr>Username := ''carol'', Password := ''$2a$10$''\<rparr>]\<rparr>)"
    by simp
  from h1 l h3 h4 h5 r show ?thesis
    by blast
qed

section \<open>Doctor directory\<close>

text \<open>
  C6. Creating a doctor appends the document of the body as it is, id included, to the
  doctor collection, with no look at the ids already there: when the insert call does not
  err the answer is status 200, the number of documents carrying the new id grows by one,
  and every earlier document with that id is still in the collection next to the new one.
\<close>

theorem create_doctor_no_duplicate_check:
  assumes "\<not> InsertOne_err e"
  shows "CreateDoctor e s (Some newDoctor)
           = ((StatusOK, H_message ''Doctor created successfully''),
              s\<lparr>doctor := doctor s @ [newDoctor]\<rparr>)
         \<and> length (filter (\<lambda>d. Doctor.ID d = Doctor.ID newDoctor)
              (doctor (snd (CreateDoctor e s (Some newDoctor)))))
           = Suc (length (filter (\<lambda>d. Doctor.ID d = Doctor.ID newDoctor) (doctor s)))
         \<and> (\<forall>d \<in> set (doctor s). Doctor.ID d = Doctor.ID newDoctor \<longrightarrow>
              d \<in> set (doctor (snd (CreateDoctor e s (Some newDoctor)))))"
  using assms by (simp add: CreateDoctor_def InsertOne_def)

theorem create_doctor_no_duplicate_check_witness:
  "\<not> InsertOne_err env_ok
   \<and> doc1 \<in> set (doctor store0)
   \<and> Doctor.ID doc1 = Doctor.ID (doc1\<lparr>Doctor.DName := ''Dr. Hany''\<rparr>)
   \<and> CreateDoctor env_ok store0 (Some (doc1\<lparr>Doctor.DName := ''Dr. Hany''\<rparr>))
       = ((StatusOK, H_message ''Doctor created successfully''),
          store0\<lparr>doctor := [doc1, doc2, doc1\<lparr>Doctor.DName := ''Dr. Hany''\<rparr>]\<rparr>)
   \<and> length (filter (\<lambda>d. Doctor.ID d = ''d1'')
        (doctor (snd (CreateDoctor env_ok store0
           (Some (doc1\<lparr>Doctor.DName := ''Dr. Hany''\<rparr>)))))) = 2
   \<and> doc1 \<in> set (doctor (snd (CreateDoctor env_ok store0
         (Some (doc1\<lparr>Doctor.DName := ''Dr. Hany''\<rparr>)))))"
proof -
  have up: "\<not> InsertOne_err env_ok"
    by (simp add: env_ok_def)
  from create_doctor_no_duplicate_check [OF up, of store0 "doc1\<lparr>Doctor.DName := ''Dr. Hany''\<rparr>"]
  show ?thesis
    by (simp add: sample_defs)
qed

text \<open>
  C5. Read for every doctor document of the store, the statement fails where ids repeat.
  Creating \<open>doc1b\<close> in a store that holds \<open>doc1\<close> gives two documents with the id
  \<open>d1\<close>. Setting the schedule of \<open>d1\<close> is answered with status 200 and rewrites the
  first of them only: \<open>doc1b\<close> is still in the collection with its old schedule, and the
  fetch of \<open>d1\<close> returns the other document.
\<close>

theorem set_schedule_second_document_counterexample:
  "snd (CreateDoctor env_ok (store_dup\<lparr>doctor := [doc1]\<rparr>) (Some doc1b)) = store_dup
   \<and> doc1b \<in> set (doctor store_dup)
   \<and> Doctor.ID doc1b = ''d1''
   \<and> Doctor.Schedule doc1b = [''Thu'']
   \<and> fst (SetDoctorSchedule env_ok store_dup ''d1'' (Some [''Mon'', ''Wed'']))
       = (StatusOK, H_message ''Doctor's schedule updated successfully'')
   \<and> doctor (snd (SetDoctorSchedule env_ok store_dup ''d1'' (Some [''Mon'', ''Wed''])))
       = [doc1\<lparr>Doctor.Schedule := [''Mon'', ''Wed'']\<rparr>, doc1b]
   \<and> GetDoctorByID env_ok
        (snd (SetDoctorSchedule env_ok store_dup ''d1'' (Some [''Mon'', ''Wed'']))) ''d1''
       = (StatusOK, Doctor_json (doc1\<lparr>Doctor.Schedule := [''Mon'', ''Wed'']\<rparr>))
   \<and> doc1\<lparr>Doctor.Schedule := [''Mon'', ''Wed'']\<rparr> \<noteq> doc1b\<lparr>Doctor.Schedule := [''Mon'', ''Wed'']\<rparr>"
  by (simp add: CreateDoctor_def InsertOne_def SetDoctorSchedule_def UpdateOne_def
      GetDoctorByID_def FindOne_def dup_defs)

text \<open>
  C5, as the code has it. Setting a schedule replaces the schedule of the first document
  of the collection with the id of the path (the only one when ids do not repeat, and
  the one a fetch by id returns) by the list of the body: the answer is status 200, the
  document keeps its place, every other document, a later one with the same id included,
  stays as it is, and a fetch of that id afterwards returns the document with exactly
  the supplied list as its schedule, in the supplied order, nothing of the old schedule
  left.
\<close>

theorem set_schedule_then_fetch:
  assumes "doctor s = pre @ d # post"
    and "\<forall>x \<in> set pre. Doctor.ID x \<noteq> doctorID"
    and "Doctor.ID d = doctorID"
    and "\<not> UpdateOne_err e"
    and "\<not> FindOne_err e'"
  shows "SetDoctorSchedule e s doctorID (Some schedule)
           = ((StatusOK, H_message ''Doctor's schedule updated successfully''),
              s\<lparr>doctor := pre @ d\<lparr>Doctor.Schedule := schedule\<rparr> # post\<rparr>)
         \<and> GetDoctorByID e' (snd (SetDoctorSchedule e s doctorID (Some schedule))) doctorID
           = (StatusOK, Doctor_json (d\<lparr>Doctor.Schedule := schedule\<rparr>))"
proof -
  let ?flt = "\<lambda>x. Doctor.ID x = doctorID"
  let ?d' = "d\<lparr>Doctor.Schedule := schedule\<rparr>"
  from assms(2,3) have upd:
    "update_one ?flt (\<lambda>x. x\<lparr>Doctor.Schedule := schedule\<rparr>) (pre @ d # post) = pre @ ?d' # post"
    by (intro update_one_first) simp_all
  from assms(2,3) have fnd: "find ?flt (pre @ ?d' # post) = Some ?d'"
    by (intro find_first) simp_all
  from upd assms(1,4) have set_eq:
    "SetDoctorSchedule e s doctorID (Some schedule)
       = ((StatusOK, H_message ''Doctor's schedule updated successfully''),
          s\<lparr>doctor := pre @ ?d' # post\<rparr>)"
    by (simp add: SetDoctorSchedule_def UpdateOne_def)
  from fnd assms(5) have
    "GetDoctorByID e' (s\<lparr>doctor := pre @ ?d' # post\<rparr>) doctorID = (StatusOK, Doctor_json ?d')"
    by (simp add: GetDoctorByID_def FindOne_def)
  with set_eq show ?thesis
    by simp
qed

theorem set_schedule_then_fetch_witness:
  "doctor store0 = [doc1] @ doc2 # []
   \<and> list_all (\<lambda>x. Doctor.ID x \<noteq> ''d2'') [doc1]
   \<and> Doctor.ID doc2 = ''d2''
   \<and> \<not> UpdateOne_err env_ok
   \<and> \<not> FindOne_err env_ok
   \<and> SetDoctorSchedule env_ok store0 ''d2'' (Some [''Mon'', ''Wed''])
       = ((StatusOK, H_message ''Doctor's schedule updated successfully''),
          store0\<lparr>doctor := [doc1] @ doc2\<lparr>Doctor.Schedule := [''Mon'', ''Wed'']\<rparr> # []\<rparr>)
   \<and> GetDoctorByID env_ok (snd (SetDoctorSchedule env_ok store0 ''d2'' (Some [''Mon'', ''Wed''])))
        ''d2''
       = (StatusOK, Doctor_json (doc2\<lparr>Doctor.Schedule := [''Mon'', ''Wed'']\<rparr>))"
proof -
  have h1: "doctor store0 = [doc1] @ doc2 # []"
    by (simp add: store0_def)
  have h2: "\<forall>x \<in> set [doc1]. Doctor.ID x \<noteq> ''d2''"
    by (simp add: doc1_def)
  have h3: "Doctor.ID doc2 = ''d2''"
    by (simp add: doc2_def)
  have h4: "\<not> UpdateOne_err env_ok" and h5: "\<not> FindOne_err env_ok"
    by (simp_all add: env_ok_def)
  from h2 have l: "list_all (\<lambda>x. Doctor.ID x \<noteq> ''d2'') [doc1]"
    by simp
  from set_schedule_then_fetch [OF h1 h2 h3 h4 h5] h1 l h3 h4 h5 show ?thesis
    by blast
qed

section \<open>Appointments of a patient\<close>

text \<open>
  C9. When no document of the patients collection has the id of the path, booking,
  updating and cancelling (with a body that binds and an update call that does not err)
  all answer with status 200 and return the store exactly as it was: no patient document
  is created and no schedule is touched.
\<close>

theorem appointment_ops_unknown_patient_noop:
  assumes "\<forall>q \<in> set (patients s). Patient.ID q \<noteq> patientID"
    and "\<not> UpdateOne_err e"
  shows "BookAppointment e s patientID (Some a)
           = ((StatusOK, H_message ''Appointment booked successfully''), s)
         \<and> UpdateAppointment e s patientID appointmentID (Some v)
           = ((StatusOK, H_message ''Appointment updated successfully''), s)
         \<and> CancelAppointment e s patientID appointmentID
           = ((StatusOK, H_message ''Appointment canceled successfully''), s)"
proof -
  from assms(1) have "update_one (\<lambda>p. Patient.ID p = patientID) upd (patients s) = patients s"
    for upd
    by (intro update_one_no_match) simp
  moreover from assms(1) have
    "update_one (\<lambda>p. Patient.ID p = patientID
                     \<and> first_match appointmentID (Patient.Schedule p) \<noteq> None) upd (patients s)
       = patients s" for upd
    by (intro update_one_no_match) simp
  ultimately show ?thesis
    using assms(2)
    by (simp add: BookAppointment_def UpdateAppointment_def CancelAppointment_def UpdateOne_def)
qed

theorem appointment_ops_unknown_patient_noop_witness:
  "list_all (\<lambda>q. Patient.ID q \<noteq> ''p9'') (patients store0)
   \<and> \<not> UpdateOne_err env_ok
   \<and> BookAppointment env_ok store0 ''p9'' (Some ''A1'')
       = ((StatusOK, H_message ''Appointment booked successfully''), store0)
   \<and> UpdateAppointment env_ok store0 ''p9'' ''A1'' (Some ''A2'')
       = ((StatusOK, H_message ''Appointment updated successfully''), store0)
   \<and> CancelAppointment env_ok store0 ''p9'' ''A1''
       = ((StatusOK, H_message ''Appointment canceled successfully''), store0)"
proof -
  have h: "\<forall>q \<in> set (patients store0). Patient.ID q \<noteq> ''p9''"
    by (simp add: sample_defs)
  have up: "\<not> UpdateOne_err env_ok"
    by (simp add: env_ok_def)
  from h have l: "list_all (\<lambda>q. Patient.ID q \<noteq> ''p9'') (patients store0)"
    by (simp add: list_all_iff)
  from appointment_ops_unknown_patient_noop [OF h up] l up show ?thesis
    by blast
qed

text \<open>
  C4. Read for every patient document of the store, the statement fails where ids repeat:
  with two documents of id \<open>p2\<close>, booking for \<open>p2\<close> is answered with status 200 and
  appends to the first of them only; the schedule of the second, \<open>pat2b\<close>, is what it
  was.
\<close>

theorem book_second_document_counterexample:
  "pat2b \<in> set (patients store_dup)
   \<and> Patient.ID pat2b = ''p2''
   \<and> Patient.Schedule pat2b = [''A1'', ''D4'']
   \<and> BookAppointment env_ok store_dup ''p2'' (Some ''A9'')
       = ((StatusOK, H_message ''Appointment booked successfully''),
          store_dup\<lparr>patients :=
            [pat2\<lparr>Patient.Schedule := [''B7'', ''A1'', ''C3'', ''A1'', ''A9'']\<rparr>, pat2b]\<rparr>)
   \<and> pat2b\<lparr>Patient.Schedule := [''A1'', ''D4'', ''A9'']\<rparr>
       \<notin> set (patients (snd (BookAppointment env_ok store_dup ''p2'' (Some ''A9''))))"
  by (simp add: BookAppointment_def UpdateOne_def push_def dup_defs)

text \<open>
  C4, as the code has it. Booking adds the appointment of the body at the end of the
  schedule of the first document of the collection with the id of the path (the only one
  when ids do not repeat): the entries already there stay, in their order, and every
  other document, a later one with the same id included, stays as it is. Two bookings in
  a row, of \<open>a1\<close> and then \<open>a2\<close>, leave the schedule as the old one followed by \<open>a1\<close>,
  \<open>a2\<close>; from an empty schedule that is \<open>[a1, a2]\<close>.
\<close>

theorem book_appends_in_order:
  assumes "patients s = pre @ p # post"
    and "\<forall>q \<in> set pre. Patient.ID q \<noteq> patientID"
    and "Patient.ID p = patientID"
    and "\<not> UpdateOne_err e1"
    and "\<not> UpdateOne_err e2"
  shows "BookAppointment e1 s patientID (Some a1)
           = ((StatusOK, H_message ''Appointment booked successfully''),
              s\<lparr>patients := pre @ p\<lparr>Patient.Schedule := Patient.Schedule p @ [a1]\<rparr> # post\<rparr>)
         \<and> BookAppointment e2 (snd (BookAppointment e1 s patientID (Some a1))) patientID (Some a2)
           = ((StatusOK, H_message ''Appointment booked successfully''),
              s\<lparr>patients := pre @ p\<lparr>Patient.Schedule := Patient.Schedule p @ [a1, a2]\<rparr> # post\<rparr>)"
proof -
  let ?flt = "\<lambda>q. Patient.ID q = patientID"
  have step: "update_one ?flt (\<lambda>q. q\<lparr>Patient.Schedule := push a (Patient.Schedule q)\<rparr>)
                (pre @ q # post)
              = pre @ q\<lparr>Patient.Schedule := Patient.Schedule q @ [a]\<rparr> # post"
    if "Patient.ID q = patientID" for a q
    using assms(2) that by (simp add: update_one_first push_def)
  from step [of p a1] assms(1,3,4) have first:
    "BookAppointment e1 s patientID (Some a1)
       = ((StatusOK, H_message ''Appointment booked successfully''),
          s\<lparr>patients := pre @ p\<lparr>Patient.Schedule := Patient.Schedule p @ [a1]\<rparr> # post\<rparr>)"
    by (simp add: BookAppointment_def UpdateOne_def)
  from step [of "p\<lparr>Patient.Schedule := Patient.Schedule p @ [a1]\<rparr>" a2] assms(3,5) have
    "BookAppointment e2
       (s\<lparr>patients := pre @ p\<lparr>Patient.Schedule := Patient.Schedule p @ [a1]\<rparr> # post\<rparr>)
       patientID (Some a2)
       = ((StatusOK, H_message ''Appointment booked successfully''),
          s\<lparr>patients := pre @ p\<lparr>Patient.Schedule := Patient.Schedule p @ [a1, a2]\<rparr> # post\<rparr>)"
    by (simp add: BookAppointment_def UpdateOne_def)
  with first show ?thesis
    by simp
qed

theorem book_appends_in_order_witness:
  "patients store0 = [] @ pat1 # [pat2]
   \<and> Patient.ID pat1 = ''p1''
   \<and> \<not> UpdateOne_err env_ok
   \<and> Patient.Schedule pat1 = []
   \<and> BookAppointment env_ok store0 ''p1'' (Some ''A1'')
       = ((StatusOK, H_message ''Appointment booked successfully''),
          store0\<lparr>patients := [pat1\<lparr>Patient.Schedule := [''A1'']\<rparr>, pat2]\<rparr>)
   \<and> BookAppointment env_ok (snd (BookAppointment env_ok store0 ''p1'' (Some ''A1''))) ''p1''
        (Some ''A2'')
       = ((StatusOK, H_message ''Appointment booked successfully''),
          store0\<lparr>patients := [pat1\<lparr>Patient.Schedule := [''A1'', ''A2'']\<rparr>, pat2]\<rparr>)"
proof -
  have h1: "patients store0 = [] @ pat1 # [pat2]"
    by (simp add: store0_def)
  have h2: "\<forall>q \<in> set []. Patient.ID q \<noteq> ''p1''"
    by simp
  have h3: "Patient.ID pat1 = ''p1''" and h6: "Patient.Schedule pat1 = []"
    by (simp_all add: pat1_def)
  have h4: "\<not> UpdateOne_err env_ok"
    by (simp add: env_ok_def)
  note r = book_appends_in_order [OF h1 h2 h3 h4 h4, of "''A1''" "''A2''"]
  from r [THEN conjunct1] have a:
    "BookAppointment env_ok store0 ''p1'' (Some ''A1'')
       = ((StatusOK, H_message ''Appointment booked successfully''),
          store0\<lparr>patients := [pat1\<lparr>Patient.Schedule := [''A1'']\<rparr>, pat2]\<rparr>)"
    by (simp add: h6)
  from r [THEN conjunct2] have b:
    "BookAppointment env_ok (snd (BookAppointment env_ok store0 ''p1'' (Some ''A1''))) ''p1''
        (Some ''A2'')
       = ((StatusOK, H_message ''Appointment booked successfully''),
          store0\<lparr>patients := [pat1\<lparr>Patient.Schedule := [''A1'', ''A2'']\<rparr>, pat2]\<rparr>)"
    by (simp add: h6)
  from h1 h3 h4 h6 a b show ?thesis
    by blast
qed

text \<open>
  C2. Read for every patient document of the store, the statement fails where ids repeat:
  with two documents of id \<open>p2\<close>, cancelling \<open>A1\<close> for \<open>p2\<close> is answered with status
  200 and clears the first of them only; the second, \<open>pat2b\<close>, keeps its \<open>A1\<close>.
\<close>

theorem cancel_second_document_counterexample:
  "pat2b \<in> set (patients store_dup)
   \<and> Patient.ID pat2b = ''p2''
   \<and> ''A1'' \<in> set (Patient.Schedule pat2b)
   \<and> CancelAppointment env_ok store_dup ''p2'' ''A1''
       = ((StatusOK, H_message ''Appointment canceled successfully''),
          store_dup\<lparr>patients := [pat2\<lparr>Patient.Schedule := [''B7'', ''C3'']\<rparr>, pat2b]\<rparr>)
   \<and> pat2b\<lparr>Patient.Schedule := [''D4'']\<rparr>
       \<notin> set (patients (snd (CancelAppointment env_ok store_dup ''p2'' ''A1'')))"
  by (simp add: CancelAppointment_def UpdateOne_def dup_defs)

text \<open>
  C2, as the code has it. Cancelling removes from the schedule of the first document of
  the collection with the id of the path (the only one when ids do not repeat) every
  element equal to the appointment identifier of the path, keeps the others in their
  order, leaves every other document, a later one with the same id included, as it is,
  and answers with status 200. When no element of that schedule equals the identifier
  the answer is the same and the store is exactly what it was.
\<close>

theorem cancel_removes_every_occurrence:
  assumes "patients s = pre @ p # post"
    and "\<forall>q \<in> set pre. Patient.ID q \<noteq> patientID"
    and "Patient.ID p = patientID"
    and "\<not> UpdateOne_err e"
  shows "CancelAppointment e s patientID appointmentID
           = ((StatusOK, H_message ''Appointment canceled successfully''),
              s\<lparr>patients :=
                  pre @ p\<lparr>Patient.Schedule :=
                           filter (\<lambda>x. x \<noteq> appointmentID) (Patient.Schedule p)\<rparr> # post\<rparr>)
         \<and> appointmentID \<notin> set (filter (\<lambda>x. x \<noteq> appointmentID) (Patient.Schedule p))
         \<and> (appointmentID \<notin> set (Patient.Schedule p) \<longrightarrow>
              CancelAppointment e s patientID appointmentID
                = ((StatusOK, H_message ''Appointment canceled successfully''), s))"
proof -
  let ?flt = "\<lambda>q. Patient.ID q = patientID"
  let ?upd = "\<lambda>q. q\<lparr>Patient.Schedule := pull appointmentID (Patient.Schedule q)\<rparr>"
  from assms(2,3) have "update_one ?flt ?upd (pre @ p # post) = pre @ ?upd p # post"
    by (intro update_one_first) simp_all
  with assms(1,4) have main:
    "CancelAppointment e s patientID appointmentID
       = ((StatusOK, H_message ''Appointment canceled successfully''),
          s\<lparr>patients := pre @ ?upd p # post\<rparr>)"
    by (simp add: CancelAppointment_def UpdateOne_def)
  have same: "s\<lparr>patients := pre @ ?upd p # post\<rparr> = s"
    if "appointmentID \<notin> set (Patient.Schedule p)"
    using that assms(1) by (simp add: pull_absent)
  from main same show ?thesis
    by (simp add: pull_filter)
qed

theorem cancel_removes_every_occurrence_witness:
  "patients store0 = [pat1] @ pat2 # []
   \<and> list_all (\<lambda>q. Patient.ID q \<noteq> ''p2'') [pat1]
   \<and> Patient.ID pat2 = ''p2''
   \<and> \<not> UpdateOne_err env_ok
   \<and> CancelAppointment env_ok store0 ''p2'' ''A1''
       = ((StatusOK, H_message ''Appointment canceled successfully''),
          store0\<lparr>patients := [pat1, pat2\<lparr>Patient.Schedule := [''B7'', ''C3'']\<rparr>]\<rparr>)
   \<and> ''Z9'' \<notin> set (Patient.Schedule pat2)
   \<and> CancelAppointment env_ok store0 ''p2'' ''Z9''
       = ((StatusOK, H_message ''Appointment canceled successfully''), store0)"
proof -
  have h1: "patients store0 = [pat1] @ pat2 # []"
    by (simp add: store0_def)
  have h2: "\<forall>q \<in> set [pat1]. Patient.ID q \<noteq> ''p2''"
    by (simp add: pat1_def)
  have h3: "Patient.ID pat2 = ''p2''"
    by (simp add: pat2_def)
  have h4: "\<not> UpdateOne_err env_ok"
    by (simp add: env_ok_def)
  have h5: "''Z9'' \<notin> set (Patient.Schedule pat2)"
    by (simp add: pat2_def)
  have f: "filter (\<lambda>x. x \<noteq> ''A1'') (Patient.Schedule pat2) = [''B7'', ''C3'']"
    by (simp add: pat2_def)
  from cancel_removes_every_occurrence [OF h1 h2 h3 h4, of "''A1''", THEN conjunct1] have a:
    "CancelAppointment env_ok store0 ''p2'' ''A1''
       = ((StatusOK, H_message ''Appointment canceled successfully''),
          store0\<lparr>patients := [pat1, pat2\<lparr>Patient.Schedule := [''B7'', ''C3'']\<rparr>]\<rparr>)"
    by (simp add: f)
  from cancel_removes_every_occurrence [OF h1 h2 h3 h4, of "''Z9''"] h5 have b:
    "CancelAppointment env_ok store0 ''p2'' ''Z9''
       = ((StatusOK, H_message ''Appointment canceled successfully''), store0)"
    by blast
  from h2 have l: "list_all (\<lambda>q. Patient.ID q \<noteq> ''p2'') [pat1]"
    by simp
  from h1 l h3 h4 h5 a b show ?thesis
    by blast
qed

text \<open>
  C3. Read for every patient document whose schedule contains the identifier, the
  statement fails where ids repeat: with two documents of id \<open>p2\<close> that both hold \<open>A1\<close>,
  updating \<open>A1\<close> for \<open>p2\<close> is answered with status 200 and rewrites one element of the
  first of them only; in the second, \<open>pat2b\<close>, no element is replaced.
\<close>

theorem update_second_document_counterexample:
  "pat2b \<in> set (patients store_dup)
   \<and> Patient.ID pat2b = ''p2''
   \<and> ''A1'' \<in> set (Patient.Schedule pat2b)
   \<and> UpdateAppointment env_ok store_dup ''p2'' ''A1'' (Some ''A1-rescheduled'')
       = ((StatusOK, H_message ''Appointment updated successfully''),
          store_dup\<lparr>patients :=
            [pat2\<lparr>Patient.Schedule := [''B7'', ''A1-rescheduled'', ''C3'', ''A1'']\<rparr>, pat2b]\<rparr>)
   \<and> pat2b\<lparr>Patient.Schedule := [''A1-rescheduled'', ''D4'']\<rparr>
       \<notin> set (patients (snd (UpdateAppointment env_ok store_dup ''p2'' ''A1''
                                 (Some ''A1-rescheduled''))))"
  by (simp add: UpdateAppointment_def UpdateOne_def set_positional_def dup_defs)

text \<open>
  C3, as the code has it. Updating looks for the first patient document that has the id
  of the path and a schedule containing the appointment identifier of the path (the only
  such document when ids do not repeat). If there is one, exactly one position of its
  schedule, one that held the identifier, now holds the value of the body; every other
  position of that schedule and every other document, a later one with the same id
  included, is as before, and the answer is status 200. If no document has that id
  together with such an element, the answer is status 200 all the same and the store is
  what it was.
\<close>

theorem update_replaces_one_match:
  assumes "\<not> UpdateOne_err e"
  shows "(patients s = pre @ p # post
          \<and> (\<forall>q \<in> set pre. \<not> (Patient.ID q = patientID
                                  \<and> appointmentID \<in> set (Patient.Schedule q)))
          \<and> Patient.ID p = patientID
          \<and> appointmentID \<in> set (Patient.Schedule p)
          \<longrightarrow> (\<exists>i < length (Patient.Schedule p).
                  Patient.Schedule p ! i = appointmentID
                  \<and> UpdateAppointment e s patientID appointmentID (Some v)
                    = ((StatusOK, H_message ''Appointment updated successfully''),
                       s\<lparr>patients :=
                           pre @ p\<lparr>Patient.Schedule := (Patient.Schedule p)[i := v]\<rparr> # post\<rparr>)))
         \<and> ((\<forall>q \<in> set (patients s). \<not> (Patient.ID q = patientID
                                           \<and> appointmentID \<in> set (Patient.Schedule q)))
          \<longrightarrow> UpdateAppointment e s patientID appointmentID (Some v)
                = ((StatusOK, H_message ''Appointment updated successfully''), s))"
proof (intro conjI impI)
  let ?flt = "\<lambda>q. Patient.ID q = patientID \<and> first_match appointmentID (Patient.Schedule q) \<noteq> None"
  let ?upd = "set_positional appointmentID v"
  assume "\<forall>q \<in> set (patients s). \<not> (Patient.ID q = patientID
            \<and> appointmentID \<in> set (Patient.Schedule q))"
  then have "\<forall>q \<in> set (patients s). \<not> ?flt q"
    by (simp add: first_match_None_iff)
  then have "update_one ?flt ?upd (patients s) = patients s"
    by (rule update_one_no_match)
  with assms show "UpdateAppointment e s patientID appointmentID (Some v)
                     = ((StatusOK, H_message ''Appointment updated successfully''), s)"
    by (simp add: UpdateAppointment_def UpdateOne_def)
next
  let ?flt = "\<lambda>q. Patient.ID q = patientID \<and> first_match appointmentID (Patient.Schedule q) \<noteq> None"
  let ?upd = "set_positional appointmentID v"
  assume h: "patients s = pre @ p # post
          \<and> (\<forall>q \<in> set pre. \<not> (Patient.ID q = patientID
                                  \<and> appointmentID \<in> set (Patient.Schedule q)))
          \<and> Patient.ID p = patientID
          \<and> appointmentID \<in> set (Patient.Schedule p)"
  then obtain i where i: "first_match appointmentID (Patient.Schedule p) = Some i"
      "i < length (Patient.Schedule p)" "Patient.Schedule p ! i = appointmentID"
    using first_match_in_set by blast
  from h have "\<forall>q \<in> set pre. \<not> ?flt q"
    by (simp add: first_match_None_iff)
  moreover from h i(1) have "?flt p"
    by simp
  ultimately have "update_one ?flt ?upd (pre @ p # post) = pre @ ?upd p # post"
    by (rule update_one_first)
  moreover from i(1) have "?upd p = p\<lparr>Patient.Schedule := (Patient.Schedule p)[i := v]\<rparr>"
    by (simp add: set_positional_def)
  ultimately have
    "UpdateAppointment e s patientID appointmentID (Some v)
       = ((StatusOK, H_message ''Appointment updated successfully''),
          s\<lparr>patients := pre @ p\<lparr>Patient.Schedule := (Patient.Schedule p)[i := v]\<rparr> # post\<rparr>)"
    using assms h by (simp add: UpdateAppointment_def UpdateOne_def)
  with i(2,3) show "\<exists>i < length (Patient.Schedule p).
                  Patient.Schedule p ! i = appointmentID
                  \<and> UpdateAppointment e s patientID appointmentID (Some v)
                    = ((StatusOK, H_message ''Appointment updated successfully''),
                       s\<lparr>patients :=
                           pre @ p\<lparr>Patient.Schedule := (Patient.Schedule p)[i := v]\<rparr> # post\<rparr>)"
    by blast
qed

theorem update_replaces_one_match_witness:
  "\<not> UpdateOne_err env_ok
   \<and> patients store0 = [pat1] @ pat2 # []
   \<and> list_all (\<lambda>q. \<not> (Patient.ID q = ''p2'' \<and> ''C3'' \<in> set (Patient.Schedule q))) [pat1]
   \<and> Patient.ID pat2 = ''p2''
   \<and> ''C3'' \<in> set (Patient.Schedule pat2)
   \<and> (\<exists>i < length (Patient.Schedule pat2).
         Patient.Schedule pat2 ! i = ''C3''
         \<and> UpdateAppointment env_ok store0 ''p2'' ''C3'' (Some ''C3-rescheduled'')
           = ((StatusOK, H_message ''Appointment updated successfully''),
              store0\<lparr>patients :=
                  [pat1] @ pat2\<lparr>Patient.Schedule :=
                             (Patient.Schedule pat2)[i := ''C3-rescheduled'']\<rparr> # []\<rparr>))
   \<and> list_all (\<lambda>q. \<not> (Patient.ID q = ''p1'' \<and> ''A1'' \<in> set (Patient.Schedule q)))
        (patients store0)
   \<and> UpdateAppointment env_ok store0 ''p1'' ''A1'' (Some ''A2'')
       = ((StatusOK, H_message ''Appointment updated successfully''), store0)"
proof -
  have up: "\<not> UpdateOne_err env_ok"
    by (simp add: env_ok_def)
  have h1: "patients store0 = [pat1] @ pat2 # []"
    by (simp add: store0_def)
  have h2: "\<forall>q \<in> set [pat1]. \<not> (Patient.ID q = ''p2'' \<and> ''C3'' \<in> set (Patient.Schedule q))"
    by (simp add: pat1_def)
  have h3: "Patient.ID pat2 = ''p2''" and h4: "''C3'' \<in> set (Patient.Schedule pat2)"
    by (simp_all add: pat2_def)
  have h5: "\<forall>q \<in> set (patients store0).
              \<not> (Patient.ID q = ''p1'' \<and> ''A1'' \<in> set (Patient.Schedule q))"
    by (simp add: store0_def pat1_def pat2_def)
  from h2 have l2:
    "list_all (\<lambda>q. \<not> (Patient.ID q = ''p2'' \<and> ''C3'' \<in> set (Patient.Schedule q))) [pat1]"
    by simp
  from h5 have l5:
    "list_all (\<lambda>q. \<not> (Patient.ID q = ''p1'' \<and> ''A1'' \<in> set (Patient.Schedule q)))
       (patients store0)"
    by (simp add: list_all_iff)
  from update_replaces_one_match [OF up, of store0 "[pat1]" pat2 "[]" "''p2''" "''C3''"
      "''C3-rescheduled''", THEN conjunct1] h1 h2 h3 h4
  have a: "\<exists>i < length (Patient.Schedule pat2).
         Patient.Schedule pat2 ! i = ''C3''
         \<and> UpdateAppointment env_ok store0 ''p2'' ''C3'' (Some ''C3-rescheduled'')
           = ((StatusOK, H_message ''Appointment updated successfully''),
              store0\<lparr>patients :=
                  [pat1] @ pat2\<lparr>Patient.Schedule :=
                             (Patient.Schedule pat2)[i := ''C3-rescheduled'']\<rparr> # []\<rparr>)"
    by blast
  from update_replaces_one_match [OF up, of store0 _ _ _ "''p1''" "''A1''" "''A2''",
      THEN conjunct2] h5
  have b: "UpdateAppointment env_ok store0 ''p1'' ''A1'' (Some ''A2'')
       = ((StatusOK, H_message ''Appointment updated successfully''), store0)"
    by blast
  from up h1 l2 h3 h4 a l5 b show ?thesis
    by blast
qed



section \<open>What the schedule mutations leave alone\<close>

text \<open>The store a handler leaves is the old one, or the old one with one update applied.\<close>

lemma SetDoctorSchedule_store:
  "snd (SetDoctorSchedule e s doctorID body) = s
   \<or> (\<exists>upd. (\<forall>d. Doctor.ID (upd d) = Doctor.ID d \<and> Doctor.DName (upd d) = Doctor.DName d)
        \<and> snd (SetDoctorSchedule e s doctorID body)
          = s\<lparr>doctor := update_one (\<lambda>d. Doctor.ID d = doctorID) upd (doctor s)\<rparr>)"
proof (cases body)
  case None
  then have "snd (SetDoctorSchedule e s doctorID body) = s"
    by (simp add: SetDoctorSchedule_def)
  then show ?thesis by (rule disjI1)
next
  case (Some schedule)
  show ?thesis
  proof (cases "UpdateOne_err e")
    case True
    with Some have "snd (SetDoctorSchedule e s doctorID body) = s"
      by (simp add: SetDoctorSchedule_def UpdateOne_def)
    then show ?thesis by (rule disjI1)
  next
    case False
    with Some have
      "snd (SetDoctorSchedule e s doctorID body)
         = s\<lparr>doctor := update_one (\<lambda>d. Doctor.ID d = doctorID)
                          (\<lambda>d. d\<lparr>Doctor.Schedule := schedule\<rparr>) (doctor s)\<rparr>"
      by (simp add: SetDoctorSchedule_def UpdateOne_def)
    moreover have "\<forall>d. Doctor.ID (d\<lparr>Doctor.Schedule := schedule\<rparr>) = Doctor.ID d
                     \<and> Doctor.DName (d\<lparr>Doctor.Schedule := schedule\<rparr>) = Doctor.DName d"
      by simp
    ultimately show ?thesis by blast
  qed
qed

lemma BookAppointment_store:
  "snd (BookAppointment e s patientID body) = s
   \<or> (\<exists>flt upd. (\<forall>p. flt p \<longrightarrow> Patient.ID p = patientID)
        \<and> (\<forall>p. Patient.ID (upd p) = Patient.ID p \<and> Patient.PName (upd p) = Patient.PName p)
        \<and> snd (BookAppointment e s patientID body)
          = s\<lparr>patients := update_one flt upd (patients s)\<rparr>)"
proof (cases "UpdateOne_err e \<or> body = None")
  case True
  then have "snd (BookAppointment e s patientID body) = s"
    by (auto simp: BookAppointment_def UpdateOne_def split: option.split)
  then show ?thesis by (rule disjI1)
next
  case False
  then obtain a where "body = Some a" and "\<not> UpdateOne_err e"
    by blast
  then show ?thesis
    by (intro disjI2 exI [of _ "\<lambda>p. Patient.ID p = patientID"]
        exI [of _ "\<lambda>p. p\<lparr>Patient.Schedule := push a (Patient.Schedule p)\<rparr>"])
      (simp add: BookAppointment_def UpdateOne_def)
qed

lemma UpdateAppointment_store:
  "snd (UpdateAppointment e s patientID appointmentID body) = s
   \<or> (\<exists>flt upd. (\<forall>p. flt p \<longrightarrow> Patient.ID p = patientID)
        \<and> (\<forall>p. Patient.ID (upd p) = Patient.ID p \<and> Patient.PName (upd p) = Patient.PName p)
        \<and> snd (UpdateAppointment e s patientID appointmentID body)
          = s\<lparr>patients := update_one flt upd (patients s)\<rparr>)"
proof (cases "UpdateOne_err e \<or> body = None")
  case True
  then have "snd (UpdateAppointment e s patientID appointmentID body) = s"
    by (auto simp: UpdateAppointment_def UpdateOne_def split: option.split)
  then show ?thesis by (rule disjI1)
next
  case False
  then obtain v where "body = Some v" and "\<not> UpdateOne_err e"
    by blast
  then show ?thesis
    by (intro disjI2
        exI [of _ "\<lambda>p. Patient.ID p = patientID
                      \<and> first_match appointmentID (Patient.Schedule p) \<noteq> None"]
        exI [of _ "set_positional appointmentID v"])
      (simp add: UpdateAppointment_def UpdateOne_def)
qed

lemma CancelAppointment_store:
  "snd (CancelAppointment e s patientID appointmentID) = s
   \<or> (\<exists>flt upd. (\<forall>p. flt p \<longrightarrow> Patient.ID p = patientID)
        \<and> (\<forall>p. Patient.ID (upd p) = Patient.ID p \<and> Patient.PName (upd p) = Patient.PName p)
        \<and> snd (CancelAppointment e s patientID appointmentID)
          = s\<lparr>patients := update_one flt upd (patients s)\<rparr>)"
proof (cases "UpdateOne_err e")
  case True
  then have "snd (CancelAppointment e s patientID appointmentID) = s"
    by (simp add: CancelAppointment_def UpdateOne_def)
  then show ?thesis by (rule disjI1)
next
  case False
  then show ?thesis
    by (intro disjI2 exI [of _ "\<lambda>p. Patient.ID p = patientID"]
        exI [of _ "\<lambda>p. p\<lparr>Patient.Schedule := pull appointmentID (Patient.Schedule p)\<rparr>"])
      (simp add: CancelAppointment_def UpdateOne_def)
qed

text \<open>What one update on the patients collection, filtered by the id, leaves alone.\<close>

lemma patients_update_frame:
  assumes "s' = s
     \<or> (\<exists>flt upd. (\<forall>p. flt p \<longrightarrow> Patient.ID p = patientID)
        \<and> (\<forall>p. Patient.ID (upd p) = Patient.ID p \<and> Patient.PName (upd p) = Patient.PName p)
        \<and> s' = s\<lparr>patients := update_one flt upd (patients s)\<rparr>)"
  shows "users s' = users s \<and> doctor s' = doctor s
      \<and> map Patient.ID (patients s') = map Patient.ID (patients s)
      \<and> map Patient.PName (patients s') = map Patient.PName (patients s)
      \<and> (\<forall>i < length (patients s).
            Patient.ID (patients s ! i) \<noteq> patientID \<longrightarrow> patients s' ! i = patients s ! i)
      \<and> (\<exists>k. \<forall>i < length (patients s). i \<noteq> k \<longrightarrow> patients s' ! i = patients s ! i)"
  using assms
proof (elim disjE exE conjE)
  assume "s' = s"
  then show ?thesis by simp
next
  fix flt upd
  assume flt: "\<forall>p. flt p \<longrightarrow> Patient.ID p = patientID"
    and inv: "\<forall>p. Patient.ID (upd p) = Patient.ID p \<and> Patient.PName (upd p) = Patient.PName p"
    and eq: "s' = s\<lparr>patients := update_one flt upd (patients s)\<rparr>"
  from inv have "map Patient.ID (update_one flt upd (patients s)) = map Patient.ID (patients s)"
    and "map Patient.PName (update_one flt upd (patients s)) = map Patient.PName (patients s)"
    by (simp_all add: update_one_map_inv)
  moreover from flt have "\<forall>i < length (patients s).
      Patient.ID (patients s ! i) \<noteq> patientID \<longrightarrow>
      update_one flt upd (patients s) ! i = patients s ! i"
    by (auto intro: update_one_nth_other)
  ultimately show ?thesis
    using eq update_one_at_most_one [of "patients s" flt upd]
    by simp
qed

lemma doctor_update_frame:
  assumes "s' = s
     \<or> (\<exists>upd. (\<forall>d. Doctor.ID (upd d) = Doctor.ID d \<and> Doctor.DName (upd d) = Doctor.DName d)
        \<and> s' = s\<lparr>doctor := update_one (\<lambda>d. Doctor.ID d = doctorID) upd (doctor s)\<rparr>)"
  shows "users s' = users s \<and> patients s' = patients s
      \<and> map Doctor.ID (doctor s') = map Doctor.ID (doctor s)
      \<and> map Doctor.DName (doctor s') = map Doctor.DName (doctor s)
      \<and> (\<forall>i < length (doctor s).
            Doctor.ID (doctor s ! i) \<noteq> doctorID \<longrightarrow> doctor s' ! i = doctor s ! i)
      \<and> (\<exists>k. \<forall>i < length (doctor s). i \<noteq> k \<longrightarrow> doctor s' ! i = doctor s ! i)"
  using assms
proof (elim disjE exE conjE)
  assume "s' = s"
  then show ?thesis by simp
next
  fix upd
  assume inv: "\<forall>d. Doctor.ID (upd d) = Doctor.ID d \<and> Doctor.DName (upd d) = Doctor.DName d"
    and eq: "s' = s\<lparr>doctor := update_one (\<lambda>d. Doctor.ID d = doctorID) upd (doctor s)\<rparr>"
  from inv have "map Doctor.ID (update_one (\<lambda>d. Doctor.ID d = doctorID) upd (doctor s))
                   = map Doctor.ID (doctor s)"
    and "map Doctor.DName (update_one (\<lambda>d. Doctor.ID d = doctorID) upd (doctor s))
                   = map Doctor.DName (doctor s)"
    by (simp_all add: update_one_map_inv)
  with eq update_one_at_most_one [of "doctor s" "\<lambda>d. Doctor.ID d = doctorID" upd]
  show ?thesis
    by (simp add: update_one_nth_other)
qed

text \<open>
  C10. Setting a doctor's schedule leaves the users and the patients collections as they
  are; booking, updating and cancelling leave the users and the doctor collections as
  they are. In the collection a handler works on, the documents keep their places, ids
  and names; every document whose id is not the one of the path is unchanged; and there
  is one position outside of which nothing has changed, so at most one document is
  modified. This holds for every body and every environment.
\<close>

theorem schedule_mutations_frame:
  "(let s' = snd (SetDoctorSchedule e s doctorID sbody) in
      users s' = users s \<and> patients s' = patients s
      \<and> map Doctor.ID (doctor s') = map Doctor.ID (doctor s)
      \<and> map Doctor.DName (doctor s') = map Doctor.DName (doctor s)
      \<and> (\<forall>i < length (doctor s).
            Doctor.ID (doctor s ! i) \<noteq> doctorID \<longrightarrow> doctor s' ! i = doctor s ! i)
      \<and> (\<exists>k. \<forall>i < length (doctor s). i \<noteq> k \<longrightarrow> doctor s' ! i = doctor s ! i))
   \<and> (\<forall>s' \<in> {snd (BookAppointment e s patientID abody),
               snd (UpdateAppointment e s patientID appointmentID abody),
               snd (CancelAppointment e s patientID appointmentID)}.
      users s' = users s \<and> doctor s' = doctor s
      \<and> map Patient.ID (patients s') = map Patient.ID (patients s)
      \<and> map Patient.PName (patients s') = map Patient.PName (patients s)
      \<and> (\<forall>i < length (patients s).
            Patient.ID (patients s ! i) \<noteq> patientID \<longrightarrow> patients s' ! i = patients s ! i)
      \<and> (\<exists>k. \<forall>i < length (patients s). i \<noteq> k \<longrightarrow> patients s' ! i = patients s ! i))"
  unfolding Let_def
proof (rule conjI)
  show "users (snd (SetDoctorSchedule e s doctorID sbody)) = users s
      \<and> patients (snd (SetDoctorSchedule e s doctorID sbody)) = patients s
      \<and> map Doctor.ID (doctor (snd (SetDoctorSchedule e s doctorID sbody)))
        = map Doctor.ID (doctor s)
      \<and> map Doctor.DName (doctor (snd (SetDoctorSchedule e s doctorID sbody)))
        = map Doctor.DName (doctor s)
      \<and> (\<forall>i < length (doctor s).
            Doctor.ID (doctor s ! i) \<noteq> doctorID \<longrightarrow>
            doctor (snd (SetDoctorSchedule e s doctorID sbody)) ! i = doctor s ! i)
      \<and> (\<exists>k. \<forall>i < length (doctor s). i \<noteq> k \<longrightarrow>
            doctor (snd (SetDoctorSchedule e s doctorID sbody)) ! i = doctor s ! i)"
    by (rule doctor_update_frame) (rule SetDoctorSchedule_store)
next
  show "\<forall>s' \<in> {snd (BookAppointment e s patientID abody),
               snd (UpdateAppointment e s patientID appointmentID abody),
               snd (CancelAppointment e s patientID appointmentID)}.
      users s' = users s \<and> doctor s' = doctor s
      \<and> map Patient.ID (patients s') = map Patient.ID (patients s)
      \<and> map Patient.PName (patients s') = map Patient.PName (patients s)
      \<and> (\<forall>i < length (patients s).
            Patient.ID (patients s ! i) \<noteq> patientID \<longrightarrow> patients s' ! i = patients s ! i)
      \<and> (\<exists>k. \<forall>i < length (patients s). i \<noteq> k \<longrightarrow> patients s' ! i = patients s ! i)"
  proof (rule ballI)
    fix s'
    assume "s' \<in> {snd (BookAppointment e s patientID abody),
               snd (UpdateAppointment e s patientID appointmentID abody),
               snd (CancelAppointment e s patientID appointmentID)}"
    then consider "s' = snd (BookAppointment e s patientID abody)"
      | "s' = snd (UpdateAppointment e s patientID appointmentID abody)"
      | "s' = snd (CancelAppointment e s patientID appointmentID)"
      by blast
    then have "s' = s
     \<or> (\<exists>flt upd. (\<forall>p. flt p \<longrightarrow> Patient.ID p = patientID)
        \<and> (\<forall>p. Patient.ID (upd p) = Patient.ID p \<and> Patient.PName (upd p) = Patient.PName p)
        \<and> s' = s\<lparr>patients := update_one flt upd (patients s)\<rparr>)"
    proof cases
      case 1
      with BookAppointment_store [of e s patientID abody] show ?thesis by simp
    next
      case 2
      with UpdateAppointment_store [of e s patientID appointmentID abody] show ?thesis by simp
    next
      case 3
      with CancelAppointment_store [of e s patientID appointmentID] show ?thesis by simp
    qed
    then show "users s' = users s \<and> doctor s' = doctor s
      \<and> map Patient.ID (patients s') = map Patient.ID (patients s)
      \<and> map Patient.PName (patients s') = map Patient.PName (patients s)
      \<and> (\<forall>i < length (patients s).
            Patient.ID (patients s ! i) \<noteq> patientID \<longrightarrow> patients s' ! i = patients s ! i)
      \<and> (\<exists>k. \<forall>i < length (patients s). i \<noteq> k \<longrightarrow> patients s' ! i = patients s ! i)"
      by (rule patients_update_frame)
  qed
qed

theorem schedule_mutations_frame_witness:
  "Doctor.ID (doctor store0 ! 0) \<noteq> ''d2''
   \<and> doctor (snd (SetDoctorSchedule env_ok store0 ''d2'' (Some [''Mon'']))) ! 0
       = doctor store0 ! 0
   \<and> map Doctor.DName (doctor (snd (SetDoctorSchedule env_ok store0 ''d2'' (Some [''Mon'']))))
       = map Doctor.DName (doctor store0)
   \<and> patients (snd (SetDoctorSchedule env_ok store0 ''d2'' (Some [''Mon'']))) = patients store0
   \<and> Patient.ID (patients store0 ! 0) \<noteq> ''p2''
   \<and> patients (snd (BookAppointment env_ok store0 ''p2'' (Some ''A9''))) ! 0
       = patients store0 ! 0
   \<and> patients (snd (UpdateAppointment env_ok store0 ''p2'' ''A1'' (Some ''A9''))) ! 0
       = patients store0 ! 0
   \<and> patients (snd (CancelAppointment env_ok store0 ''p2'' ''A1'')) ! 0
       = patients store0 ! 0
   \<and> map Patient.PName (patients (snd (CancelAppointment env_ok store0 ''p2'' ''A1'')))
       = map Patient.PName (patients store0)
   \<and> doctor (snd (BookAppointment env_ok store0 ''p2'' (Some ''A9''))) = doctor store0"
proof -
  have d0: "0 < length (doctor store0)" and p0: "0 < length (patients store0)"
    by (simp_all add: store0_def)
  have hd: "Doctor.ID (doctor store0 ! 0) \<noteq> ''d2''"
    by (simp add: store0_def doc1_def)
  have hp: "Patient.ID (patients store0 ! 0) \<noteq> ''p2''"
    by (simp add: store0_def pat1_def)
  note r = schedule_mutations_frame [of env_ok store0 "''d2''" "Some [''Mon'']" "''p2''"
      "Some ''A9''" "''A1''", unfolded Let_def]
  from r [THEN conjunct1] d0 hd have a:
    "doctor (snd (SetDoctorSchedule env_ok store0 ''d2'' (Some [''Mon'']))) ! 0
       = doctor store0 ! 0"
    "map Doctor.DName (doctor (snd (SetDoctorSchedule env_ok store0 ''d2'' (Some [''Mon'']))))
       = map Doctor.DName (doctor store0)"
    "patients (snd (SetDoctorSchedule env_ok store0 ''d2'' (Some [''Mon'']))) = patients store0"
    by blast+
  from r [THEN conjunct2, THEN bspec,
      of "snd (BookAppointment env_ok store0 ''p2'' (Some ''A9''))"] p0 hp have b:
    "patients (snd (BookAppointment env_ok store0 ''p2'' (Some ''A9''))) ! 0
       = patients store0 ! 0"
    "doctor (snd (BookAppointment env_ok store0 ''p2'' (Some ''A9''))) = doctor store0"
    by blast+
  from r [THEN conjunct2, THEN bspec,
      of "snd (UpdateAppointment env_ok store0 ''p2'' ''A1'' (Some ''A9''))"] p0 hp have u:
    "patients (snd (UpdateAppointment env_ok store0 ''p2'' ''A1'' (Some ''A9''))) ! 0
       = patients store0 ! 0"
    by blast
  from r [THEN conjunct2, THEN bspec,
      of "snd (CancelAppointment env_ok store0 ''p2'' ''A1'')"] p0 hp have c:
    "patients (snd (CancelAppointment env_ok store0 ''p2'' ''A1'')) ! 0
       = patients store0 ! 0"
    "map Patient.PName (patients (snd (CancelAppointment env_ok store0 ''p2'' ''A1'')))
       = map Patient.PName (patients store0)"
    by blast+
  from hd hp a b u c show ?thesis
    by blast
qed

end
